theory Spec2Isabelle
  imports Complex_Main "HOL-Library.Sublist"
begin

section \<open>The Azure DevOps connector (backend/onyx/connectors/azure\_devops/connector.py)\<close>

text \<open>
  The connector is a class with four fields, one method that loads credentials and one
  generator, \<open>_fetch_work_items\<close>, reached through \<open>load_from_state\<close> and
  \<open>poll_source\<close>. The embedding keeps the source's names and statement order.

  \<^item> Python values of type \<open>Any\<close> (credential values, work-item field values) are the
    datatype \<open>pyval\<close>; \<open>isinstance\<close> is a test on the constructor and truthiness is
    the function \<open>truthy\<close>.
  \<^item> Exceptions are values of the datatype \<open>error\<close>.
  \<^item> The collaborators outside the repository (the Azure DevOps SDK, the clock, the
    ISO-8601 parser of the standard library) are parameters: the record \<open>env\<close> and the
    record \<open>client\<close>. Every call that leaves the process is appended to the \<open>trace\<close>
    of the \<open>world\<close>, so that "no call was made" is a statement about that trace.
  \<^item> A generator is modelled by its complete run: the list of the values it yields, in
    order, and the exception that ends the run, if any. The body of a Python generator
    starts at the first \<open>next\<close>; an exception "raised by" the generator is the one that
    ends that run.
\<close>

subsection \<open>Python values\<close>

record datetime =
  year :: nat
  month :: nat
  day :: nat
  hour :: nat
  minute :: nat
  second :: nat
  microsecond :: nat
  tzinfo :: "int option"

text \<open>
  \<open>tzinfo\<close> is \<open>None\<close> for a naive datetime and \<open>Some off\<close> for an aware one, \<open>off\<close>
  the UTC offset of a fixed-offset \<open>timezone\<close> in seconds. \<open>timezone.utc\<close> is offset 0.
\<close>

definition timezone_utc :: int where
  "timezone_utc = 0"

datatype pyval =
    PNone
  | PBool bool
  | PInt int
  | PStr string
  | PDatetime datetime
  | PList "pyval list"
  | PDict "(string \<times> pyval) list"

fun truthy :: "pyval \<Rightarrow> bool" where
  "truthy PNone = False"
| "truthy (PBool b) = b"
| "truthy (PInt n) = (n \<noteq> 0)"
| "truthy (PStr s) = (s \<noteq> [])"
| "truthy (PDatetime d) = True"
| "truthy (PList xs) = (xs \<noteq> [])"
| "truthy (PDict kvs) = (kvs \<noteq> [])"

text \<open>\<open>d.get(k, default)\<close>; \<open>d.get(k)\<close> is \<open>dict_get d k PNone\<close>.\<close>

definition dict_get :: "(string \<rightharpoonup> pyval) \<Rightarrow> string \<Rightarrow> pyval \<Rightarrow> pyval" where
  "dict_get d k dflt = (case d k of None \<Rightarrow> dflt | Some v \<Rightarrow> v)"

fun isinstance_str :: "pyval \<Rightarrow> bool" where
  "isinstance_str (PStr s) = True"
| "isinstance_str v = False"

fun isinstance_datetime :: "pyval \<Rightarrow> bool" where
  "isinstance_datetime (PDatetime d) = True"
| "isinstance_datetime v = False"

text \<open>
  Exceptions. \<open>ConnectorMissingCredentialError\<close> is the repository's own, \<open>ValueError\<close>
  the interpreter's (a zero step of \<open>range\<close>; a timestamp outside the years 1 to 9999,
  for which CPython raises \<open>ValueError\<close> or \<open>OverflowError\<close>), and \<open>SdkError\<close> wraps
  whatever a call into the SDK raises. The connector catches none of them.
\<close>

datatype sdk_exception = SdkException string

datatype error =
    ConnectorMissingCredentialError string
  | ValueError string
  | SdkError sdk_exception

subsection \<open>\<open>str(int)\<close>, \<open>range\<close>, slices\<close>

definition digit_char :: "nat \<Rightarrow> char" where
  "digit_char n = ''0123456789'' ! n"

fun str_nat :: "nat \<Rightarrow> string" where
  "str_nat n = (if n < 10 then [digit_char n] else str_nat (n div 10) @ [digit_char (n mod 10)])"

declare str_nat.simps [simp del]

definition str_int :: "int \<Rightarrow> string" where
  "str_int i = (if i < 0 then CHR ''-'' # str_nat (nat (- i)) else str_nat (nat i))"

text \<open>The format \<open>%0wd\<close> applied to a natural number.\<close>

definition zpad :: "nat \<Rightarrow> nat \<Rightarrow> string" where
  "zpad w n = replicate (w - length (str_nat n)) (CHR ''0'') @ str_nat n"

text \<open>
  \<open>range(start, stop, step)\<close> as the list it iterates over. A zero step raises
  \<open>ValueError\<close>; the length is CPython's formula.
\<close>

definition py_range :: "int \<Rightarrow> int \<Rightarrow> int \<Rightarrow> error + int list" where
  "py_range start stop step =
     (if step = 0 then Inl (ValueError ''range() arg 3 must not be zero'')
      else if 0 < step then
        Inr (map (\<lambda>k. start + int k * step) [0..<nat ((stop - start + step - 1) div step)])
      else
        Inr (map (\<lambda>k. start + int k * step) [0..<nat ((start - stop - step - 1) div (- step))]))"

text \<open>\<open>xs[i:j]\<close>: negative bounds count from the end, both are clamped to the list.\<close>

definition py_slice :: "'a list \<Rightarrow> int \<Rightarrow> int \<Rightarrow> 'a list" where
  "py_slice xs i j =
     (let n = int (length xs);
          lo = (if i < 0 then max (i + n) 0 else min i n);
          hi = (if j < 0 then max (j + n) 0 else min j n)
      in take (nat (hi - lo)) (drop (nat lo) xs))"

subsection \<open>\<open>datetime\<close>: \<open>replace\<close>, \<open>isoformat\<close>, \<open>fromtimestamp\<close>\<close>

text \<open>\<open>dt.replace(tzinfo=tz)\<close> keeps the wall-clock fields and overwrites the offset.\<close>

definition replace_tzinfo :: "datetime \<Rightarrow> int \<Rightarrow> datetime" where
  "replace_tzinfo dt tz = dt\<lparr>tzinfo := Some tz\<rparr>"

definition format_offset :: "int \<Rightarrow> string" where
  "format_offset off =
     (let a = nat \<bar>off\<bar>;
          hh = a div 3600;
          mm = (a mod 3600) div 60;
          ss = a mod 60
      in (if off < 0 then ''-'' else ''+'') @ zpad 2 hh @ '':'' @ zpad 2 mm
         @ (if ss \<noteq> 0 then '':'' @ zpad 2 ss else []))"

text \<open>
  \<open>dt.isoformat()\<close>: \<open>YYYY-MM-DDTHH:MM:SS\<close>, the microseconds when they are not zero,
  the offset when the datetime is aware.
\<close>

definition isoformat :: "datetime \<Rightarrow> string" where
  "isoformat dt =
     zpad 4 (year dt) @ ''-'' @ zpad 2 (month dt) @ ''-'' @ zpad 2 (day dt) @ ''T''
     @ zpad 2 (hour dt) @ '':'' @ zpad 2 (minute dt) @ '':'' @ zpad 2 (second dt)
     @ (if microsecond dt \<noteq> 0 then ''.'' @ zpad 6 (microsecond dt) else [])
     @ (case tzinfo dt of None \<Rightarrow> [] | Some off \<Rightarrow> format_offset off)"

text \<open>
  The proleptic Gregorian date of a day number counted from 1970-01-01 (year, month, day).
\<close>

definition civil_from_days :: "int \<Rightarrow> int \<times> int \<times> int" where
  "civil_from_days z0 =
     (let z = z0 + 719468;
          era = z div 146097;
          doe = z - era * 146097;
          yoe = (doe - doe div 1460 + doe div 36524 - doe div 146096) div 365;
          doy = doe - (365 * yoe + yoe div 4 - yoe div 100);
          mp = (5 * doy + 2) div 153;
          d = doy - (153 * mp + 2) div 5 + 1;
          m = (if mp < 10 then mp + 3 else mp - 9);
          y = yoe + era * 400 + (if m \<le> 2 then 1 else 0)
      in (y, m, d))"

text \<open>
  \<open>datetime.fromtimestamp(ts, tz=timezone.utc)\<close> for a whole number of seconds
  (\<open>SecondsSinceUnixEpoch\<close> is a float; fractions of a second are outside this model).
\<close>

definition fromtimestamp_utc :: "int \<Rightarrow> error + datetime" where
  "fromtimestamp_utc ts =
     (let days = ts div 86400;
          r = ts mod 86400;
          (y, m, d) = civil_from_days days
      in if y < 1 \<or> 9999 < y then Inl (ValueError ''year is out of range'')
         else Inr \<lparr>year = nat y, month = nat m, day = nat d,
                   hour = nat (r div 3600), minute = nat ((r mod 3600) div 60),
                   second = nat (r mod 60), microsecond = 0,
                   tzinfo = Some timezone_utc\<rparr>)"

subsection \<open>The SDK: connection, client, work items\<close>

record basic_authentication =
  username :: string
  password :: string

record connection =
  base_url :: string
  creds :: basic_authentication

datatype wiql = Wiql string

record work_item_reference =
  wi_id :: int

record work_item_query_result =
  work_items :: "work_item_reference list option"

record work_item =
  item_id :: int
  url :: string
  item_fields :: "(string \<rightharpoonup> pyval) option"

text \<open>
  The work-item-tracking client is opaque: its two methods are functions of the request,
  and either may raise.
\<close>

record client =
  query_by_wiql :: "wiql \<Rightarrow> sdk_exception + work_item_query_result"
  get_work_items :: "int list \<Rightarrow> string \<Rightarrow> string \<Rightarrow> sdk_exception + work_item list"

datatype call =
    GetWorkItemTrackingClient connection
  | QueryByWiql wiql
  | GetWorkItems "int list" string string

record world =
  trace :: "call list"
  ticks :: nat

definition record_call :: "call \<Rightarrow> world \<Rightarrow> world" where
  "record_call c w = w\<lparr>trace := trace w @ [c]\<rparr>"

text \<open>
  What the process is given from outside: the SDK's client factory
  (\<open>Connection(...).clients.get_work_item_tracking_client()\<close>), the parser
  \<open>datetime.fromisoformat\<close> (\<open>None\<close> when it raises; its grammar depends on the
  interpreter's version) and the clock, read by \<open>datetime.utcnow()\<close>.
\<close>

record env =
  get_work_item_tracking_client :: "connection \<Rightarrow> sdk_exception + client"
  fromisoformat :: "string \<Rightarrow> datetime option"
  clock :: "nat \<Rightarrow> datetime"

text \<open>\<open>datetime.utcnow()\<close>: a naive datetime; each read advances the clock.\<close>

definition utcnow :: "env \<Rightarrow> world \<Rightarrow> datetime \<times> world" where
  "utcnow e w = ((clock e (ticks w))\<lparr>tzinfo := None\<rparr>, w\<lparr>ticks := Suc (ticks w)\<rparr>)"

text \<open>\<open>s.rstrip("Z")\<close> removes every trailing \<open>Z\<close>.\<close>

definition rstrip_Z :: "string \<Rightarrow> string" where
  "rstrip_Z s = rev (dropWhile (\<lambda>c. c = CHR ''Z'') (rev s))"

subsection \<open>The documents of the host framework\<close>

text \<open>
  Modelled from the spec: the classes \<open>TextSection\<close>, \<open>BasicExpertInfo\<close>, \<open>Document\<close> and
  the enumeration \<open>DocumentSource\<close> of \<open>onyx.connectors.models\<close> and
  \<open>onyx.configs.constants\<close> are not part of the source at hand. Following the spec's data
  model they are plain records that hold the constructor's arguments as they are given.
\<close>

record text_section =
  link :: string
  section_text :: pyval

record basic_expert_info =
  display_name :: pyval

datatype document_source = AZURE_DEVOPS

record document =
  doc_id :: string
  sections :: "text_section list"
  source :: document_source
  semantic_identifier :: pyval
  doc_updated_at :: datetime
  primary_owners :: "basic_expert_info list"
  metadata :: "(string \<times> pyval) list"

subsection \<open>The connector\<close>

record connector =
  organization :: string
  project :: string
  batch_size :: int
  client :: "client option"

text \<open>\<open>__init__\<close>; the default of \<open>batch_size\<close> is a constant of the host's configuration.\<close>

definition init :: "string \<Rightarrow> string \<Rightarrow> int \<Rightarrow> connector" where
  "init org proj bs = \<lparr>organization = org, project = proj, batch_size = bs, client = None\<rparr>"

text \<open>
  \<open>load_credentials\<close>. The result is the exception raised, if any (the method returns
  \<open>None\<close> otherwise), and the connector after the call.
\<close>

definition load_credentials ::
  "env \<Rightarrow> connector \<Rightarrow> (string \<rightharpoonup> pyval) \<Rightarrow> world
     \<Rightarrow> (error option \<times> connector) \<times> world" where
  "load_credentials e self credentials w =
     (case dict_get credentials ''azure_devops_pat'' PNone of
        PStr pat \<Rightarrow>
          (let conn = \<lparr>base_url = ''https://dev.azure.com/'' @ organization self,
                       creds = \<lparr>username = [], password = pat\<rparr>\<rparr>;
               w1 = record_call (GetWorkItemTrackingClient conn) w
           in case get_work_item_tracking_client e conn of
                Inl x \<Rightarrow> ((Some (SdkError x), self), w1)
              | Inr c \<Rightarrow> ((None, self\<lparr>client := Some c\<rparr>), w1))
      | _ \<Rightarrow>
          ((Some (ConnectorMissingCredentialError ''Azure DevOps PAT missing or invalid''), self),
           w))"

text \<open>Lines 50 to 55: the query text.\<close>

definition build_query :: "string \<Rightarrow> datetime option \<Rightarrow> datetime option \<Rightarrow> string" where
  "build_query proj start end_dt =
     (let query = ''SELECT [System.Id] FROM WorkItems WHERE [System.TeamProject]=''
                  @ [CHR 0x27] @ proj @ [CHR 0x27];
          query = (case start of
                     None \<Rightarrow> query
                   | Some s \<Rightarrow> query @ '' AND [System.ChangedDate] >= ''
                                @ [CHR 0x27] @ isoformat s @ [CHR 0x27]);
          query = (case end_dt of
                     None \<Rightarrow> query
                   | Some t \<Rightarrow> query @ '' AND [System.ChangedDate] <= ''
                                @ [CHR 0x27] @ isoformat t @ [CHR 0x27])
      in query @ '' ORDER BY [System.ChangedDate] ASC'')"

text \<open>Lines 64 to 74: the update time of an item, given its fields.\<close>

definition updated_at_dt :: "env \<Rightarrow> (string \<rightharpoonup> pyval) \<Rightarrow> world \<Rightarrow> datetime \<times> world" where
  "updated_at_dt e flds w =
     (let (dt, w') =
            (case dict_get flds ''System.ChangedDate'' PNone of
               PStr s \<Rightarrow>
                 (case fromisoformat e (rstrip_Z s) of
                    Some parsed \<Rightarrow> (parsed, w)
                  | None \<Rightarrow> utcnow e w)
             | PDatetime d \<Rightarrow> (d, w)
             | _ \<Rightarrow> utcnow e w)
      in (replace_tzinfo dt timezone_utc, w'))"

text \<open>Line 63, \<open>item.fields or {}\<close>: a missing mapping counts as the empty one.\<close>

definition fields_or_empty :: "work_item \<Rightarrow> (string \<rightharpoonup> pyval)" where
  "fields_or_empty item = (case item_fields item of None \<Rightarrow> Map.empty | Some f \<Rightarrow> f)"

text \<open>Lines 63 to 87: the body of the inner loop, one item to one document.\<close>

definition item_to_document :: "env \<Rightarrow> work_item \<Rightarrow> world \<Rightarrow> document \<times> world" where
  "item_to_document e item w =
     (let flds = fields_or_empty item;
          (dt, w') = updated_at_dt e flds w
      in (\<lparr>doc_id = str_int (item_id item),
           sections = [\<lparr>link = url item,
                        section_text = dict_get flds ''System.Description'' (PStr [])\<rparr>],
           source = AZURE_DEVOPS,
           semantic_identifier =
             dict_get flds ''System.Title'' (PStr (''Work Item '' @ str_int (item_id item))),
           doc_updated_at = dt,
           primary_owners =
             (if truthy (dict_get flds ''System.AssignedTo'' PNone)
              then [\<lparr>display_name = dict_get flds ''System.AssignedTo'' PNone\<rparr>]
              else []),
           metadata = [(''state'', dict_get flds ''System.State'' PNone)]\<rparr>, w'))"

text \<open>Lines 61, 62 and 88: the inner loop over the items of one batch.\<close>

fun items_to_documents :: "env \<Rightarrow> work_item list \<Rightarrow> world \<Rightarrow> document list \<times> world" where
  "items_to_documents e [] w = ([], w)"
| "items_to_documents e (item # items) w =
     (let (doc, w1) = item_to_document e item w;
          (docs, w2) = items_to_documents e items w1
      in (doc # docs, w2))"

text \<open>
  Lines 58 to 90: the outer loop over the start indices of the batches. The result is
  the run of the generator from there on: the batches yielded and the exception that
  ended it, if any.
\<close>

fun fetch_batches ::
  "env \<Rightarrow> client \<Rightarrow> string \<Rightarrow> int \<Rightarrow> int list \<Rightarrow> int list \<Rightarrow> world
     \<Rightarrow> (document list list \<times> error option) \<times> world" where
  "fetch_batches e cl proj bs ids [] w = (([], None), w)"
| "fetch_batches e cl proj bs ids (i # is) w =
     (let batch_ids = py_slice ids i (i + bs);
          w1 = record_call (GetWorkItems batch_ids proj ''Fields'') w
      in case get_work_items cl batch_ids proj ''Fields'' of
           Inl x \<Rightarrow> (([], Some (SdkError x)), w1)
         | Inr items \<Rightarrow>
             (let (docs, w2) = items_to_documents e items w1;
                  ((rest, err), w3) = fetch_batches e cl proj bs ids is w2
              in ((if docs \<noteq> [] then docs # rest else rest, err), w3)))"

text \<open>\<open>_fetch_work_items\<close>.\<close>

definition fetch_work_items ::
  "env \<Rightarrow> connector \<Rightarrow> datetime option \<Rightarrow> datetime option \<Rightarrow> world
     \<Rightarrow> (document list list \<times> error option) \<times> world" where
  "fetch_work_items e self start end_dt w =
     (case client self of
        None \<Rightarrow> (([], Some (ConnectorMissingCredentialError ''Azure DevOps'')), w)
      | Some cl \<Rightarrow>
          (let query = build_query (project self) start end_dt;
               w1 = record_call (QueryByWiql (Wiql query)) w
           in case query_by_wiql cl (Wiql query) of
                Inl x \<Rightarrow> (([], Some (SdkError x)), w1)
              | Inr result \<Rightarrow>
                  (let ids = (case work_items result of
                                None \<Rightarrow> []
                              | Some wis \<Rightarrow> map wi_id wis)
                   in case py_range 0 (int (length ids)) (batch_size self) of
                        Inl err \<Rightarrow> (([], Some err), w1)
                      | Inr starts \<Rightarrow>
                          fetch_batches e cl (project self) (batch_size self) ids starts w1)))"

definition load_from_state ::
  "env \<Rightarrow> connector \<Rightarrow> world \<Rightarrow> (document list list \<times> error option) \<times> world" where
  "load_from_state e self w = fetch_work_items e self None None w"

definition poll_source ::
  "env \<Rightarrow> connector \<Rightarrow> int \<Rightarrow> int \<Rightarrow> world
     \<Rightarrow> (document list list \<times> error option) \<times> world" where
  "poll_source e self start end_ts w =
     (case fromtimestamp_utc start of
        Inl err \<Rightarrow> (([], Some err), w)
      | Inr start_dt \<Rightarrow>
          (case fromtimestamp_utc end_ts of
             Inl err \<Rightarrow> (([], Some err), w)
           | Inr end_dt \<Rightarrow> fetch_work_items e self (Some start_dt) (Some end_dt) w))"

subsection \<open>A small organization, used to run the definitions\<close>

definition example_item :: "int \<Rightarrow> work_item" where
  "example_item i =
     \<lparr>item_id = i,
      url = ''https://dev.azure.com/org/_apis/wit/workItems/'' @ str_int i,
      item_fields =
        (if i = 7 then
           Some [''System.Title'' \<mapsto> PStr ''Fix login'',
                 ''System.ChangedDate'' \<mapsto> PStr ''2024-01-02T03:04:05Z'',
                 ''System.AssignedTo'' \<mapsto> PStr ''Ada'']
         else if i = 8 then
           Some [''System.ChangedDate'' \<mapsto> PStr ''yesterday'',
                 ''System.AssignedTo'' \<mapsto> PStr []]
         else if i = 10 then
           Some [''System.ChangedDate'' \<mapsto> PStr ''2024-01-02T03:04:05+05:30'',
                 ''System.Title'' \<mapsto> PNone]
         else None)\<rparr>"

definition example_client :: client where
  "example_client =
     \<lparr>query_by_wiql =
        (\<lambda>q. Inr \<lparr>work_items = Some [\<lparr>wi_id = 7\<rparr>, \<lparr>wi_id = 8\<rparr>, \<lparr>wi_id = 9\<rparr>]\<rparr>),
      get_work_items = (\<lambda>ids proj expand. Inr (map example_item ids))\<rparr>"

definition example_env :: env where
  "example_env =
     \<lparr>get_work_item_tracking_client = (\<lambda>conn. Inr example_client),
      fromisoformat =
        (\<lambda>s. if s = ''2024-01-02T03:04:05''
              then Some \<lparr>year = 2024, month = 1, day = 2, hour = 3, minute = 4, second = 5,
                         microsecond = 0, tzinfo = None\<rparr>
              else if s = ''2024-01-02T03:04:05+05:30''
              then Some \<lparr>year = 2024, month = 1, day = 2, hour = 3, minute = 4, second = 5,
                         microsecond = 0, tzinfo = Some 19800\<rparr>
              else None),
      clock = (\<lambda>n. \<lparr>year = 2026, month = 11, day = 3, hour = 12, minute = 0, second = n,
                     microsecond = 0, tzinfo = None\<rparr>)\<rparr>"

text \<open>The same client behind a service that takes at most two identifiers a request.\<close>

definition example_limited_client :: client where
  "example_limited_client =
     example_client\<lparr>get_work_items :=
       (\<lambda>ids proj expand.
          if length ids \<le> 2 then Inr (map example_item ids)
          else Inl (SdkException ''too many identifiers''))\<rparr>"

definition example_world :: world where
  "example_world = \<lparr>trace = [], ticks = 0\<rparr>"

definition example_connector :: connector where
  "example_connector = (init ''org'' ''Alpha'' 2)\<lparr>client := Some example_client\<rparr>"

subsection \<open>Notions used to state the properties\<close>

text \<open>
  The two bounds of the poll of the specification, \<open>1700000000\<close> and \<open>1700003600\<close>
  seconds after the epoch, as datetimes.
\<close>

definition poll_start_dt :: datetime where
  "poll_start_dt = \<lparr>year = 2023, month = 11, day = 14, hour = 22, minute = 13, second = 20,
                     microsecond = 0, tzinfo = Some timezone_utc\<rparr>"

definition poll_end_dt :: datetime where
  "poll_end_dt = \<lparr>year = 2023, month = 11, day = 14, hour = 23, minute = 13, second = 20,
                   microsecond = 0, tzinfo = Some timezone_utc\<rparr>"

text \<open>
  The upper-bound clause, character for character as line 54 appends it for the end
  bound \<open>t\<close>.
\<close>

definition upper_bound_clause :: "datetime \<Rightarrow> string" where
  "upper_bound_clause t =
     '' AND [System.ChangedDate] <= '' @ [CHR 0x27] @ isoformat t @ [CHR 0x27]"

section \<open>Properties\<close>

subsection \<open>The two poll bounds of the specification, converted\<close>

lemma fromtimestamp_1700000000:
  "fromtimestamp_utc 1700000000 =
     Inr \<lparr>year = 2023, month = 11, day = 14, hour = 22, minute = 13, second = 20,
          microsecond = 0, tzinfo = Some timezone_utc\<rparr>"
  by code_simp

lemma fromtimestamp_1700003600:
  "fromtimestamp_utc 1700003600 =
     Inr \<lparr>year = 2023, month = 11, day = 14, hour = 23, minute = 13, second = 20,
          microsecond = 0, tzinfo = Some timezone_utc\<rparr>"
  by code_simp

subsection \<open>Retrieval before authentication\<close>

text \<open>
  Claim C4. On a connector whose client handle is unset, the retrieval routine raises the
  missing-credential error, whatever its bounds, and so do the full load and the poll
  (the poll once its two bounds are converted). The world comes back as it was: no query
  is executed, and no other call is made. In the poll the world is unchanged even when a
  bound is not a representable date.
\<close>

theorem fetch_before_authentication_raises:
  assumes "client self = None"
  shows "fetch_work_items e self start end_dt w
           = (([], Some (ConnectorMissingCredentialError ''Azure DevOps'')), w)
       \<and> load_from_state e self w
           = (([], Some (ConnectorMissingCredentialError ''Azure DevOps'')), w)
       \<and> ((\<exists>sd td. fromtimestamp_utc s = Inr sd \<and> fromtimestamp_utc t = Inr td) \<longrightarrow>
            poll_source e self s t w
              = (([], Some (ConnectorMissingCredentialError ''Azure DevOps'')), w))
       \<and> snd (poll_source e self s t w) = w"
proof -
  have f: "fetch_work_items e self a b w
           = (([], Some (ConnectorMissingCredentialError ''Azure DevOps'')), w)" for a b
    using assms by (simp add: fetch_work_items_def)
  show ?thesis
    by (auto simp: f load_from_state_def poll_source_def split: sum.splits)
qed

theorem fetch_before_authentication_raises_witness:
  "client (init ''org'' ''Alpha'' 2) = None
   \<and> fetch_work_items example_env (init ''org'' ''Alpha'' 2) None None example_world
       = (([], Some (ConnectorMissingCredentialError ''Azure DevOps'')), example_world)
   \<and> load_from_state example_env (init ''org'' ''Alpha'' 2) example_world
       = (([], Some (ConnectorMissingCredentialError ''Azure DevOps'')), example_world)
   \<and> poll_source example_env (init ''org'' ''Alpha'' 2) 1700000000 1700003600 example_world
       = (([], Some (ConnectorMissingCredentialError ''Azure DevOps'')), example_world)"
proof -
  have c: "client (init ''org'' ''Alpha'' 2) = None"
    by (simp add: init_def)
  show ?thesis
    using c fetch_before_authentication_raises [OF c, of example_env None None example_world
        1700000000 1700003600]
    by (simp only: fromtimestamp_1700000000 fromtimestamp_1700003600) blast
qed

subsection \<open>Credential loading\<close>

text \<open>
  Claim C5. When the key \<open>azure_devops_pat\<close> is absent from the credential bundle, or its
  value is not a string, \<open>load_credentials\<close> raises the missing-credential error; the
  world is unchanged, so no call to the SDK (and hence no network call) precedes the
  error, and the connector is unchanged, so an unset client handle stays unset. When the
  value is a string, the exception raised, if any, is not the missing-credential error,
  and with the client that the SDK returns the handle is populated.
\<close>

theorem load_credentials_checks_token:
  "((credentials ''azure_devops_pat'' = None
      \<or> (\<exists>v. credentials ''azure_devops_pat'' = Some v \<and> \<not> isinstance_str v)) \<longrightarrow>
      load_credentials e self credentials w
        = ((Some (ConnectorMissingCredentialError ''Azure DevOps PAT missing or invalid''), self),
           w))
   \<and> (credentials ''azure_devops_pat'' = Some (PStr pat) \<longrightarrow>
        (\<forall>msg. fst (fst (load_credentials e self credentials w))
                 \<noteq> Some (ConnectorMissingCredentialError msg))
        \<and> (\<forall>c. get_work_item_tracking_client e
                   \<lparr>base_url = ''https://dev.azure.com/'' @ organization self,
                    creds = \<lparr>username = [], password = pat\<rparr>\<rparr> = Inr c \<longrightarrow>
               fst (load_credentials e self credentials w)
                 = (None, self\<lparr>client := Some c\<rparr>)))"
  by (auto simp: load_credentials_def dict_get_def Let_def split: pyval.splits sum.splits)

theorem load_credentials_checks_token_witness:
  "load_credentials example_env (init ''org'' ''Alpha'' 2) Map.empty example_world
     = ((Some (ConnectorMissingCredentialError ''Azure DevOps PAT missing or invalid''),
         init ''org'' ''Alpha'' 2), example_world)
   \<and> load_credentials example_env (init ''org'' ''Alpha'' 2)
         [''azure_devops_pat'' \<mapsto> PInt 5] example_world
     = ((Some (ConnectorMissingCredentialError ''Azure DevOps PAT missing or invalid''),
         init ''org'' ''Alpha'' 2), example_world)
   \<and> fst (load_credentials example_env (init ''org'' ''Alpha'' 2)
         [''azure_devops_pat'' \<mapsto> PStr ''secret''] example_world)
     = (None, (init ''org'' ''Alpha'' 2)\<lparr>client := Some example_client\<rparr>)"
  using load_credentials_checks_token
          [where credentials = "Map.empty" and e = example_env
             and self = "init ''org'' ''Alpha'' 2" and w = example_world]
        load_credentials_checks_token
          [where credentials = "[''azure_devops_pat'' \<mapsto> PInt 5]" and e = example_env
             and self = "init ''org'' ''Alpha'' 2" and w = example_world]
        load_credentials_checks_token
          [where credentials = "[''azure_devops_pat'' \<mapsto> PStr ''secret'']"
             and pat = "''secret''" and e = example_env
             and self = "init ''org'' ''Alpha'' 2" and w = example_world]
  by (simp add: example_env_def)

text \<open>
  Claim C10. The empty string is a string: with the token \<open>""\<close> the type check passes, no
  missing-credential error is raised, the SDK is asked for a client with the empty
  password, and the client it returns is stored in the connector.
\<close>

theorem load_credentials_accepts_empty_token:
  assumes "credentials ''azure_devops_pat'' = Some (PStr [])"
  shows "(\<forall>msg. fst (fst (load_credentials e self credentials w))
                 \<noteq> Some (ConnectorMissingCredentialError msg))
       \<and> trace (snd (load_credentials e self credentials w))
           = trace w @ [GetWorkItemTrackingClient
                          \<lparr>base_url = ''https://dev.azure.com/'' @ organization self,
                           creds = \<lparr>username = [], password = []\<rparr>\<rparr>]
       \<and> (\<forall>c. get_work_item_tracking_client e
                   \<lparr>base_url = ''https://dev.azure.com/'' @ organization self,
                    creds = \<lparr>username = [], password = []\<rparr>\<rparr> = Inr c \<longrightarrow>
               fst (load_credentials e self credentials w)
                 = (None, self\<lparr>client := Some c\<rparr>))"
  using assms
  by (auto simp: load_credentials_def dict_get_def Let_def record_call_def split: sum.splits)

theorem load_credentials_accepts_empty_token_witness:
  "[''azure_devops_pat'' \<mapsto> PStr []] ''azure_devops_pat'' = Some (PStr [])
   \<and> fst (load_credentials example_env (init ''org'' ''Alpha'' 2)
            [''azure_devops_pat'' \<mapsto> PStr []] example_world)
       = (None, (init ''org'' ''Alpha'' 2)\<lparr>client := Some example_client\<rparr>)
   \<and> trace (snd (load_credentials example_env (init ''org'' ''Alpha'' 2)
            [''azure_devops_pat'' \<mapsto> PStr []] example_world))
       = [GetWorkItemTrackingClient
            \<lparr>base_url = ''https://dev.azure.com/org'',
             creds = \<lparr>username = [], password = []\<rparr>\<rparr>]"
proof -
  have h: "[''azure_devops_pat'' \<mapsto> PStr []] ''azure_devops_pat'' = Some (PStr [])"
    by simp
  show ?thesis
    using h load_credentials_accepts_empty_token
              [where credentials = "[''azure_devops_pat'' \<mapsto> PStr []]" and e = example_env
                 and self = "init ''org'' ''Alpha'' 2" and w = example_world]
    by (simp add: example_env_def example_world_def init_def)
qed

subsection \<open>From a work item to a document\<close>

text \<open>
  Claim C8. When the field \<open>System.AssignedTo\<close> is present and not empty (truthy, as
  Python tests it: \<open>None\<close>, \<open>False\<close>, \<open>0\<close>, the empty string, list and dictionary
  count as empty), the document has exactly one primary owner, whose display name is
  the value of the field. When the field is absent or empty, the list of primary owners
  is empty.
\<close>

theorem primary_owners_from_assignee:
  "(\<forall>v. fields_or_empty item ''System.AssignedTo'' = Some v \<and> truthy v \<longrightarrow>
        primary_owners (fst (item_to_document e item w)) = [\<lparr>display_name = v\<rparr>])
   \<and> (fields_or_empty item ''System.AssignedTo'' = None
        \<or> (\<exists>v. fields_or_empty item ''System.AssignedTo'' = Some v \<and> \<not> truthy v) \<longrightarrow>
        primary_owners (fst (item_to_document e item w)) = [])"
  by (auto simp: item_to_document_def dict_get_def Let_def split: prod.splits)

theorem primary_owners_from_assignee_witness:
  "primary_owners (fst (item_to_document example_env (example_item 7) example_world))
     = [\<lparr>display_name = PStr ''Ada''\<rparr>]
   \<and> primary_owners (fst (item_to_document example_env (example_item 8) example_world)) = []
   \<and> primary_owners (fst (item_to_document example_env (example_item 9) example_world)) = []"
  using primary_owners_from_assignee [of "example_item 7" example_env example_world]
        primary_owners_from_assignee [of "example_item 8" example_env example_world]
        primary_owners_from_assignee [of "example_item 9" example_env example_world]
  by (simp add: example_item_def fields_or_empty_def)

text \<open>
  Claim C9. For an item without the field \<open>System.Title\<close> the semantic identifier is the
  label \<open>Work Item\<close> followed by the item's identifier; for an item with that field it
  is the value of the field.
\<close>

theorem semantic_identifier_from_title:
  "(fields_or_empty item ''System.Title'' = None \<longrightarrow>
      semantic_identifier (fst (item_to_document e item w))
        = PStr (''Work Item '' @ str_int (item_id item)))
   \<and> (\<forall>v. fields_or_empty item ''System.Title'' = Some v \<longrightarrow>
        semantic_identifier (fst (item_to_document e item w)) = v)"
  by (auto simp: item_to_document_def dict_get_def Let_def split: prod.splits)

theorem semantic_identifier_from_title_witness:
  "semantic_identifier (fst (item_to_document example_env (example_item 7) example_world))
     = PStr ''Fix login''
   \<and> semantic_identifier (fst (item_to_document example_env (example_item 8) example_world))
     = PStr ''Work Item 8''
   \<and> semantic_identifier (fst (item_to_document example_env (example_item 9) example_world))
     = PStr ''Work Item 9''
   \<and> semantic_identifier (fst (item_to_document example_env (example_item 10) example_world))
     = PNone"
  using semantic_identifier_from_title [of "example_item 7" example_env example_world]
        semantic_identifier_from_title [of "example_item 8" example_env example_world]
        semantic_identifier_from_title [of "example_item 9" example_env example_world]
        semantic_identifier_from_title [of "example_item 10" example_env example_world]
  by (simp add: example_item_def fields_or_empty_def str_int_def str_nat.simps digit_char_def)

text \<open>
  Claim C2. The update time of the document. A string in \<open>System.ChangedDate\<close> is parsed
  by \<open>fromisoformat\<close> after its trailing \<open>Z\<close>s are stripped; when the parser raises,
  when the field is missing, and when its value is neither a string nor a datetime, the
  current time is taken (the clock as \<open>utcnow\<close> reads it in the world \<open>w\<close>); a datetime
  value is taken as it is. In every case the offset is then overwritten with UTC: the
  wall-clock fields are those of the parsed value, not converted.
\<close>

theorem updated_at_forced_to_utc:
  "(\<forall>s d. fields_or_empty item ''System.ChangedDate'' = Some (PStr s)
            \<and> fromisoformat e (rstrip_Z s) = Some d \<longrightarrow>
          doc_updated_at (fst (item_to_document e item w)) = d\<lparr>tzinfo := Some timezone_utc\<rparr>)
   \<and> (\<forall>s. fields_or_empty item ''System.ChangedDate'' = Some (PStr s)
            \<and> fromisoformat e (rstrip_Z s) = None \<longrightarrow>
          doc_updated_at (fst (item_to_document e item w))
            = (clock e (ticks w))\<lparr>tzinfo := Some timezone_utc\<rparr>)
   \<and> (fields_or_empty item ''System.ChangedDate'' = None
        \<or> (\<exists>v. fields_or_empty item ''System.ChangedDate'' = Some v
                 \<and> \<not> isinstance_str v \<and> \<not> isinstance_datetime v) \<longrightarrow>
          doc_updated_at (fst (item_to_document e item w))
            = (clock e (ticks w))\<lparr>tzinfo := Some timezone_utc\<rparr>)
   \<and> (\<forall>d. fields_or_empty item ''System.ChangedDate'' = Some (PDatetime d) \<longrightarrow>
          doc_updated_at (fst (item_to_document e item w)) = d\<lparr>tzinfo := Some timezone_utc\<rparr>)
   \<and> tzinfo (doc_updated_at (fst (item_to_document e item w))) = Some timezone_utc"
  by (auto simp: item_to_document_def updated_at_dt_def dict_get_def Let_def utcnow_def
        replace_tzinfo_def split: prod.splits pyval.splits option.splits)

theorem updated_at_forced_to_utc_witness:
  "doc_updated_at (fst (item_to_document example_env (example_item 7) example_world))
     = \<lparr>year = 2024, month = 1, day = 2, hour = 3, minute = 4, second = 5,
        microsecond = 0, tzinfo = Some timezone_utc\<rparr>
   \<and> doc_updated_at (fst (item_to_document example_env (example_item 8) example_world))
     = \<lparr>year = 2026, month = 11, day = 3, hour = 12, minute = 0, second = 0,
        microsecond = 0, tzinfo = Some timezone_utc\<rparr>
   \<and> doc_updated_at (fst (item_to_document example_env (example_item 9) example_world))
     = \<lparr>year = 2026, month = 11, day = 3, hour = 12, minute = 0, second = 0,
        microsecond = 0, tzinfo = Some timezone_utc\<rparr>
   \<and> doc_updated_at (fst (item_to_document example_env (example_item 10) example_world))
     = \<lparr>year = 2024, month = 1, day = 2, hour = 3, minute = 4, second = 5,
        microsecond = 0, tzinfo = Some timezone_utc\<rparr>"
  using updated_at_forced_to_utc [of "example_item 7" example_env example_world]
        updated_at_forced_to_utc [of "example_item 8" example_env example_world]
        updated_at_forced_to_utc [of "example_item 9" example_env example_world]
        updated_at_forced_to_utc [of "example_item 10" example_env example_world]
  by (simp add: example_item_def fields_or_empty_def example_env_def example_world_def
        rstrip_Z_def)

subsection \<open>The retrieval loop\<close>

text \<open>
  Helper facts: the decimal string of an integer is not empty; what one item and one list
  of items become; what a run of the outer loop yields; the arithmetic of \<open>range\<close> with a
  positive step; a slice with bounds inside the list; cutting a list into chunks and
  gluing them again.
\<close>

lemma str_nat_nonempty: "str_nat n \<noteq> []"
  by (subst str_nat.simps) simp

lemma str_int_nonempty: "str_int i \<noteq> []"
  by (simp add: str_int_def str_nat_nonempty)

lemma item_to_document_id:
  "doc_id (fst (item_to_document e item w)) = str_int (item_id item)"
  by (simp add: item_to_document_def Let_def split: prod.splits)

lemma item_to_document_tzinfo:
  "tzinfo (doc_updated_at (fst (item_to_document e item w))) = Some timezone_utc"
  by (simp add: item_to_document_def updated_at_dt_def replace_tzinfo_def Let_def
        split: prod.splits)

lemma items_to_documents_ids:
  "map doc_id (fst (items_to_documents e items w)) = map (\<lambda>it. str_int (item_id it)) items"
proof (induction items arbitrary: w)
  case Nil
  show ?case by simp
next
  case (Cons item items)
  obtain doc w1 where d: "item_to_document e item w = (doc, w1)"
    by (cases "item_to_document e item w")
  obtain docs w2 where ds: "items_to_documents e items w1 = (docs, w2)"
    by (cases "items_to_documents e items w1")
  have "doc_id doc = str_int (item_id item)"
    using item_to_document_id [of e item w] d by simp
  moreover have "map doc_id docs = map (\<lambda>it. str_int (item_id it)) items"
    using Cons.IH [of w1] ds by simp
  ultimately show ?case
    by (simp add: d ds)
qed

lemma items_to_documents_inv:
  "d \<in> set (fst (items_to_documents e items w)) \<Longrightarrow>
     doc_id d \<noteq> [] \<and> tzinfo (doc_updated_at d) = Some timezone_utc"
proof (induction items arbitrary: w)
  case Nil
  then show ?case by simp
next
  case (Cons item items)
  obtain doc w1 where d: "item_to_document e item w = (doc, w1)"
    by (cases "item_to_document e item w")
  obtain docs w2 where ds: "items_to_documents e items w1 = (docs, w2)"
    by (cases "items_to_documents e items w1")
  have doc: "doc_id doc \<noteq> [] \<and> tzinfo (doc_updated_at doc) = Some timezone_utc"
    using item_to_document_id [of e item w] item_to_document_tzinfo [of e item w] d
    by (simp add: str_int_nonempty)
  from Cons.prems have "d = doc \<or> d \<in> set docs"
    by (simp add: d ds)
  then show ?case
    using doc Cons.IH [of w1] ds by auto
qed

lemma fetch_batches_inv:
  "fetch_batches e cl proj bs ids starts w = ((batches, err), w') \<Longrightarrow> b \<in> set batches \<Longrightarrow>
     b \<noteq> [] \<and> (\<forall>d\<in>set b. doc_id d \<noteq> [] \<and> tzinfo (doc_updated_at d) = Some timezone_utc)"
proof (induction starts arbitrary: w batches err w')
  case Nil
  then show ?case by simp
next
  case (Cons i starts)
  let ?batch = "py_slice ids i (i + bs)"
  let ?w1 = "record_call (GetWorkItems ?batch proj ''Fields'') w"
  show ?case
  proof (cases "get_work_items cl ?batch proj ''Fields''")
    case (Inl x)
    with Cons.prems show ?thesis by (simp add: Let_def)
  next
    case (Inr items)
    obtain docs w2 where ds: "items_to_documents e items ?w1 = (docs, w2)"
      by (cases "items_to_documents e items ?w1")
    obtain rest err2 w3 where r: "fetch_batches e cl proj bs ids starts w2 = ((rest, err2), w3)"
      by (cases "fetch_batches e cl proj bs ids starts w2") auto
    from Cons.prems(1) have bs: "batches = (if docs \<noteq> [] then docs # rest else rest)"
      by (simp add: Let_def Inr ds r)
    from Cons.prems(2) bs have "(docs \<noteq> [] \<and> b = docs) \<or> b \<in> set rest"
      by (auto split: if_splits)
    then show ?thesis
    proof
      assume "docs \<noteq> [] \<and> b = docs"
      then show ?thesis
        using items_to_documents_inv [of _ e items ?w1] ds by simp
    next
      assume "b \<in> set rest"
      then show ?thesis
        using Cons.IH [OF r] by simp
    qed
  qed
qed

lemma ceil_div_bounds:
  assumes "0 < (b::int)"
  shows "((n + b - 1) div b) * b \<le> n + b - 1" and "n \<le> ((n + b - 1) div b) * b"
proof -
  let ?a = "n + b - 1"
  have eq: "?a = ?a div b * b + ?a mod b"
    by simp
  have lo: "0 \<le> ?a mod b" and hi: "?a mod b < b"
    using assms by simp_all
  show "(?a div b) * b \<le> ?a"
    using eq lo by linarith
  show "n \<le> (?a div b) * b"
    using eq hi by linarith
qed

lemma range_bound:
  assumes "0 < (b::int)" and "k < nat ((n + b - 1) div b)"
  shows "int k * b < n"
proof -
  let ?m = "(n + b - 1) div b"
  from assms(2) have "int k + 1 \<le> ?m"
    by linarith
  then have "(int k + 1) * b \<le> ?m * b"
    using assms(1) by (simp add: mult_right_mono)
  also have "\<dots> \<le> n + b - 1"
    using ceil_div_bounds(1) [OF assms(1)] .
  finally show ?thesis
    by (simp add: algebra_simps)
qed

lemma range_cover:
  assumes "0 < (b::int)" and "0 \<le> n"
  shows "n \<le> int (nat ((n + b - 1) div b)) * b"
proof -
  have "0 \<le> (n + b - 1) div b"
    using assms by (simp add: pos_imp_zdiv_nonneg_iff)
  then show ?thesis
    using ceil_div_bounds(2) [OF assms(1), of n] by simp
qed

lemma ceil_div:
  assumes "0 < (b::int)"
  shows "\<lceil>real_of_int n / real_of_int b\<rceil> = (n + b - 1) div b"
proof (rule ceiling_unique)
  let ?m = "(n + b - 1) div b"
  have "(?m - 1) * b < n"
    using ceil_div_bounds(1) [OF assms, of n] by (simp add: algebra_simps)
  then have "real_of_int ((?m - 1) * b) < real_of_int n"
    by (simp only: of_int_less_iff)
  then show "real_of_int ?m - 1 < real_of_int n / real_of_int b"
    using assms by (simp add: pos_less_divide_eq)
  have "real_of_int n \<le> real_of_int (?m * b)"
    using ceil_div_bounds(2) [OF assms, of n] by (simp only: of_int_le_iff)
  then show "real_of_int n / real_of_int b \<le> real_of_int ?m"
    using assms by (simp add: pos_divide_le_eq)
qed

lemma py_slice_batch:
  assumes "0 \<le> i" and "0 < b"
  shows "py_slice xs i (i + b) = take (nat b) (drop (nat i) xs)"
proof (cases "i \<le> int (length xs)")
  case True
  have "take (nat (min (i + b) (int (length xs)) - i)) (drop (nat i) xs)
          = take (nat b) (drop (nat i) xs)"
  proof (cases "i + b \<le> int (length xs)")
    case True
    then show ?thesis by (simp add: min_def)
  next
    case False
    then have "length (drop (nat i) xs) \<le> nat (int (length xs) - i)"
         and "length (drop (nat i) xs) \<le> nat b"
      using assms by auto
    with False show ?thesis by (simp add: min_def)
  qed
  with True assms show ?thesis
    by (simp add: py_slice_def Let_def min_def)
next
  case False
  with assms show ?thesis
    by (simp add: py_slice_def Let_def min_def)
qed

lemma concat_chunks:
  "concat (map (\<lambda>k. take b (drop (k * b) xs)) [0..<m]) = take (m * b) xs"
  by (induction m) (simp_all add: take_add [symmetric] add.commute)

lemma fetch_batches_faithful:
  assumes pos: "0 < bs"
    and faithful:
      "\<forall>i\<in>set starts.
         \<exists>items. get_work_items cl (py_slice ids i (i + bs)) proj ''Fields'' = Inr items
                 \<and> map item_id items = py_slice ids i (i + bs)"
    and starts: "\<forall>i\<in>set starts. 0 \<le> i \<and> i < int (length ids)"
  shows "snd (fst (fetch_batches e cl proj bs ids starts w)) = None
       \<and> map (map doc_id) (fst (fst (fetch_batches e cl proj bs ids starts w)))
           = map (\<lambda>i. map str_int (take (nat bs) (drop (nat i) ids))) starts"
  using faithful starts
proof (induction starts arbitrary: w)
  case Nil
  show ?case by simp
next
  case (Cons i starts)
  let ?batch = "py_slice ids i (i + bs)"
  let ?w1 = "record_call (GetWorkItems ?batch proj ''Fields'') w"
  from Cons.prems(2) have i: "0 \<le> i" "i < int (length ids)"
    by simp_all
  have slice: "?batch = take (nat bs) (drop (nat i) ids)"
    using py_slice_batch [OF i(1) pos] .
  have ne: "?batch \<noteq> []"
    using i pos by (simp add: slice)
  from Cons.prems(1) obtain items where
    get: "get_work_items cl ?batch proj ''Fields'' = Inr items"
    and ids: "map item_id items = ?batch"
    by auto
  obtain docs w2 where ds: "items_to_documents e items ?w1 = (docs, w2)"
    by (cases "items_to_documents e items ?w1")
  have "map doc_id docs = map (\<lambda>it. str_int (item_id it)) items"
    using items_to_documents_ids [of e items ?w1] ds by simp
  also have "\<dots> = map str_int (map item_id items)"
    by (simp add: o_def)
  finally have docs_ids: "map doc_id docs = map str_int (take (nat bs) (drop (nat i) ids))"
    using ids slice by simp
  have docs_ne: "docs \<noteq> []"
    using docs_ids ne slice by auto
  obtain rest err w3 where r: "fetch_batches e cl proj bs ids starts w2 = ((rest, err), w3)"
    by (cases "fetch_batches e cl proj bs ids starts w2") auto
  have ih: "err = None
      \<and> map (map doc_id) rest
          = map (\<lambda>i. map str_int (take (nat bs) (drop (nat i) ids))) starts"
    using Cons.IH [of w2] Cons.prems r by simp
  have "fetch_batches e cl proj bs ids (i # starts) w = ((docs # rest, err), w3)"
    by (simp add: Let_def get ds r docs_ne)
  then show ?case
    using ih docs_ids by simp
qed

lemma example_run_ids:
  "map (map doc_id)
     (fst (fst (fetch_work_items example_env example_connector None None example_world)))
     = [[''7'', ''8''], [''9'']]"
  by code_simp

text \<open>
  Claim C3. Every batch that a run of the retrieval routine yields is a non-empty list,
  and every document in it has a non-empty identifier and an update time that carries
  the UTC offset. This holds for every client, every batch size and every content of
  the changed-date field, and also for the batches yielded before an exception ends the
  run.
\<close>

theorem yielded_documents_invariant:
  "\<forall>b\<in>set (fst (fst (fetch_work_items e self start end_dt w))).
      b \<noteq> [] \<and> (\<forall>d\<in>set b. doc_id d \<noteq> [] \<and> tzinfo (doc_updated_at d) = Some timezone_utc)"
proof
  fix b
  assume b: "b \<in> set (fst (fst (fetch_work_items e self start end_dt w)))"
  obtain batches err w' where
    run: "fetch_work_items e self start end_dt w = ((batches, err), w')"
    by (cases "fetch_work_items e self start end_dt w") auto
  from b run have mem: "b \<in> set batches" by simp
  then have "\<exists>cl bs ids starts w1 err' w''.
      fetch_batches e cl (project self) bs ids starts w1 = ((batches, err'), w'')"
    using run
    by (auto simp: fetch_work_items_def Let_def split: option.splits sum.splits; blast)
  then show "b \<noteq> [] \<and> (\<forall>d\<in>set b. doc_id d \<noteq> [] \<and> tzinfo (doc_updated_at d) = Some timezone_utc)"
    using fetch_batches_inv mem by blast
qed

theorem yielded_documents_invariant_witness:
  "hd (fst (fst (fetch_work_items example_env example_connector None None example_world)))
     \<in> set (fst (fst (fetch_work_items example_env example_connector None None example_world)))
   \<and> hd (fst (fst (fetch_work_items example_env example_connector None None example_world)))
       \<noteq> []
   \<and> doc_id (hd (hd (fst (fst
         (fetch_work_items example_env example_connector None None example_world))))) \<noteq> []
   \<and> tzinfo (doc_updated_at (hd (hd (fst (fst
         (fetch_work_items example_env example_connector None None example_world))))))
       = Some timezone_utc"
proof -
  let ?bs = "fst (fst (fetch_work_items example_env example_connector None None example_world))"
  have "?bs \<noteq> []"
    using example_run_ids by auto
  then have m: "hd ?bs \<in> set ?bs"
    by simp
  have inv: "hd ?bs \<noteq> []
      \<and> (\<forall>d\<in>set (hd ?bs). doc_id d \<noteq> [] \<and> tzinfo (doc_updated_at d) = Some timezone_utc)"
    using yielded_documents_invariant [of example_env example_connector None None example_world] m
    by blast
  then have "hd (hd ?bs) \<in> set (hd ?bs)"
    by simp
  with inv m show ?thesis
    by blast
qed

text \<open>
  Claim C1. Take an authenticated connector with a positive batch size \<open>B\<close>, a query that
  returns \<open>N\<close> identifiers \<open>ids\<close>, and a client that answers the item fetches the loop
  makes: for every start index \<open>i = k * B\<close> below \<open>N\<close>, asked for the slice
  \<open>ids[i : i + B]\<close> it returns the records of these identifiers, one for each, in the
  order asked. Nothing is assumed about any other request. Then the run ends without an
  exception, it yields exactly \<open>\<lceil>N / B\<rceil>\<close> batches, none of them empty, and the
  identifiers of the documents of all batches, in order, are the decimal strings of
  \<open>ids\<close>, in order.
\<close>

theorem fetch_yields_ceiling_batches_in_order:
  assumes "client self = Some cl"
    and "0 < batch_size self"
    and "query_by_wiql cl (Wiql (build_query (project self) start end_dt)) = Inr result"
    and "ids = (case work_items result of None \<Rightarrow> [] | Some wis \<Rightarrow> map wi_id wis)"
    and "\<forall>k. int k * batch_size self < int (length ids) \<longrightarrow>
           (\<exists>items.
              get_work_items cl
                (py_slice ids (int k * batch_size self)
                   (int k * batch_size self + batch_size self))
                (project self) ''Fields'' = Inr items
              \<and> map item_id items
                  = py_slice ids (int k * batch_size self)
                      (int k * batch_size self + batch_size self))"
  shows "snd (fst (fetch_work_items e self start end_dt w)) = None
       \<and> int (length (fst (fst (fetch_work_items e self start end_dt w))))
           = \<lceil>real (length ids) / real_of_int (batch_size self)\<rceil>
       \<and> (\<forall>b\<in>set (fst (fst (fetch_work_items e self start end_dt w))). b \<noteq> [])
       \<and> map doc_id (concat (fst (fst (fetch_work_items e self start end_dt w))))
           = map str_int ids"
proof -
  let ?B = "batch_size self"
  let ?N = "int (length ids)"
  let ?m = "nat ((?N + ?B - 1) div ?B)"
  let ?starts = "map (\<lambda>k. int k * ?B) [0..<?m]"
  let ?w1 = "record_call (QueryByWiql (Wiql (build_query (project self) start end_dt))) w"
  let ?run = "fetch_batches e cl (project self) ?B ids ?starts ?w1"
  have range: "py_range 0 ?N ?B = Inr ?starts"
    using assms(2) by (simp add: py_range_def)
  have run: "fetch_work_items e self start end_dt w = ?run"
    using assms(1,3,4) range by (simp add: fetch_work_items_def Let_def)
  have in_range: "\<forall>i\<in>set ?starts. 0 \<le> i \<and> i < ?N"
    using assms(2) range_bound [OF assms(2), of _ ?N] by auto
  have asked: "\<forall>i\<in>set ?starts.
      \<exists>items. get_work_items cl (py_slice ids i (i + ?B)) (project self) ''Fields'' = Inr items
              \<and> map item_id items = py_slice ids i (i + ?B)"
  proof
    fix i
    assume "i \<in> set ?starts"
    then have "i \<in> (\<lambda>k. int k * ?B) ` {0..<?m}"
      by simp
    then obtain k where k: "i = int k * ?B" and "k \<in> {0..<?m}"
      by blast
    then have "int k * ?B < ?N"
      using range_bound [OF assms(2), of k ?N] by simp
    with assms(5) show "\<exists>items.
        get_work_items cl (py_slice ids i (i + ?B)) (project self) ''Fields'' = Inr items
        \<and> map item_id items = py_slice ids i (i + ?B)"
      unfolding k by blast
  qed
  have shape: "snd (fst ?run) = None
      \<and> map (map doc_id) (fst (fst ?run))
          = map (\<lambda>i. map str_int (take (nat ?B) (drop (nat i) ids))) ?starts"
    using fetch_batches_faithful [OF assms(2) asked in_range] .
  have m_nonneg: "0 \<le> (?N + ?B - 1) div ?B"
    using assms(2) by (simp add: pos_imp_zdiv_nonneg_iff)
  have "length (fst (fst ?run)) = ?m"
    using arg_cong [OF conjunct2 [OF shape], of length] by simp
  then have count: "int (length (fst (fst ?run))) = \<lceil>real (length ids) / real_of_int ?B\<rceil>"
    using ceil_div [OF assms(2), of ?N] m_nonneg by simp
  have nonempty: "\<forall>b\<in>set (fst (fst ?run)). b \<noteq> []"
  proof
    fix b
    assume "b \<in> set (fst (fst ?run))"
    then have "map doc_id b \<in> set (map (map doc_id) (fst (fst ?run)))"
      by simp
    then obtain i where mem: "i \<in> set ?starts"
        and b: "map doc_id b = map str_int (take (nat ?B) (drop (nat i) ids))"
      unfolding conjunct2 [OF shape] by auto
    from in_range mem have "0 \<le> i \<and> i < ?N"
      by blast
    then have "nat i < length ids"
      by linarith
    with assms(2) have "take (nat ?B) (drop (nat i) ids) \<noteq> []"
      by simp
    with b show "b \<noteq> []"
      by auto
  qed
  have nat_mult: "nat (int k * ?B) = k * nat ?B" for k
    using assms(2) by (simp add: nat_mult_distrib)
  have cover: "length ids \<le> ?m * nat ?B"
    using range_cover [OF assms(2), of ?N] assms(2)
    by (metis nat_mult nat_int nat_mono of_nat_0_le_iff)
  have "map doc_id (concat (fst (fst ?run))) = concat (map (map doc_id) (fst (fst ?run)))"
    by (simp add: map_concat)
  also have "\<dots> = map str_int (concat (map (\<lambda>k. take (nat ?B) (drop (k * nat ?B) ids)) [0..<?m]))"
    unfolding conjunct2 [OF shape] by (simp add: map_concat o_def nat_mult)
  also have "\<dots> = map str_int ids"
    using cover by (simp add: concat_chunks)
  finally have order: "map doc_id (concat (fst (fst ?run))) = map str_int ids" .
  show ?thesis
    unfolding run using shape count nonempty order by simp
qed

theorem fetch_yields_ceiling_batches_in_order_witness:
  "snd (fst (fetch_work_items example_env
               (example_connector\<lparr>client := Some example_limited_client\<rparr>)
               None None example_world)) = None
   \<and> length (fst (fst (fetch_work_items example_env
                          (example_connector\<lparr>client := Some example_limited_client\<rparr>)
                          None None example_world)))
       = 2
   \<and> map doc_id (concat (fst (fst
         (fetch_work_items example_env
            (example_connector\<lparr>client := Some example_limited_client\<rparr>)
            None None example_world))))
       = [''7'', ''8'', ''9'']"
proof -
  let ?c = "example_connector\<lparr>client := Some example_limited_client\<rparr>"
  have c: "client ?c = Some example_limited_client"
    by simp
  have bs: "batch_size example_connector = 2"
    by (simp add: example_connector_def init_def)
  have b: "0 < batch_size ?c"
    by (simp add: bs)
  have q: "query_by_wiql example_limited_client (Wiql (build_query (project ?c) None None))
           = Inr \<lparr>work_items = Some [\<lparr>wi_id = 7\<rparr>, \<lparr>wi_id = 8\<rparr>, \<lparr>wi_id = 9\<rparr>]\<rparr>"
    by (simp add: example_limited_client_def example_client_def)
  have i: "[7, 8, 9] = (case work_items \<lparr>work_items = Some [\<lparr>wi_id = 7\<rparr>, \<lparr>wi_id = 8\<rparr>, \<lparr>wi_id = 9\<rparr>]\<rparr>
                         of None \<Rightarrow> [] | Some wis \<Rightarrow> map wi_id wis)"
    by simp
  have f: "\<forall>k. int k * batch_size ?c < int (length [7, 8, 9 :: int]) \<longrightarrow>
             (\<exists>items.
                get_work_items example_limited_client
                  (py_slice [7, 8, 9] (int k * batch_size ?c)
                     (int k * batch_size ?c + batch_size ?c))
                  (project ?c) ''Fields'' = Inr items
                \<and> map item_id items
                    = py_slice [7, 8, 9] (int k * batch_size ?c)
                        (int k * batch_size ?c + batch_size ?c))"
  proof (intro allI impI)
    fix k :: nat
    have "py_slice [7, 8, 9 :: int] (int k * 2) (int k * 2 + 2)
            = take 2 (drop (nat (int k * 2)) [7, 8, 9])"
      using py_slice_batch [of "int k * 2" 2 "[7, 8, 9 :: int]"] by simp
    then show "\<exists>items.
        get_work_items example_limited_client
          (py_slice [7, 8, 9] (int k * batch_size ?c) (int k * batch_size ?c + batch_size ?c))
          (project ?c) ''Fields'' = Inr items
        \<and> map item_id items
            = py_slice [7, 8, 9] (int k * batch_size ?c)
                (int k * batch_size ?c + batch_size ?c)"
      by (simp add: bs example_limited_client_def example_item_def o_def)
  qed
  have n: "\<lceil>real (length [7, 8, 9 :: int]) / real_of_int (batch_size ?c)\<rceil> = 2"
    by (simp add: bs)
  have s: "map str_int [7, 8, 9] = [''7'', ''8'', ''9'']"
    by (simp add: str_int_def str_nat.simps digit_char_def)
  show ?thesis
    using fetch_yields_ceiling_batches_in_order [OF c b q i f, of example_env example_world]
    by (simp only: n s) simp
qed

subsection \<open>The query text\<close>

text \<open>
  Helper facts: \<open>isoformat\<close> never writes the character \<open><\<close>; with an end bound the
  query text contains \<open>upper_bound_clause\<close> of that bound.
\<close>

lemma digit_char_digit: "n < 10 \<Longrightarrow> digit_char n \<in> set ''0123456789''"
  unfolding digit_char_def by (rule nth_mem) simp

lemma digit_char_no_lt: "n < 10 \<Longrightarrow> digit_char n \<noteq> CHR ''<''"
  using digit_char_digit [of n] by auto

lemma str_nat_no_lt: "CHR ''<'' \<notin> set (str_nat n)"
proof (induction n rule: str_nat.induct)
  case (1 n)
  show ?case
  proof (cases "n < 10")
    case True
    then show ?thesis
      using digit_char_no_lt [of n] by (subst str_nat.simps) auto
  next
    case False
    have "digit_char (n mod 10) \<noteq> CHR ''<''"
      by (rule digit_char_no_lt) simp
    with False "1.IH" show ?thesis
      by (subst str_nat.simps) auto
  qed
qed

lemma zpad_no_lt: "CHR ''<'' \<notin> set (zpad w n)"
  by (simp add: zpad_def str_nat_no_lt)

lemma format_offset_no_lt: "CHR ''<'' \<notin> set (format_offset off)"
  by (simp add: format_offset_def Let_def zpad_no_lt)

lemma isoformat_no_lt: "CHR ''<'' \<notin> set (isoformat dt)"
  by (simp add: isoformat_def zpad_no_lt format_offset_no_lt split: option.splits)

lemma build_query_with_end:
  "sublist (upper_bound_clause t) (build_query proj start (Some t))"
proof -
  have "\<exists>ps. build_query proj start (Some t)
          = ps @ upper_bound_clause t @ '' ORDER BY [System.ChangedDate] ASC''"
    by (cases start) (simp_all add: build_query_def upper_bound_clause_def)
  then show ?thesis
    unfolding sublist_def by blast
qed

text \<open>
  Claim C7, amended. With a start bound and no end bound the query text is, for every
  project name, the fixed prefix, the project name between single quotes as it is given,
  the lower-bound clause on the changed date with the start bound in ISO format, and the
  order-by clause, in this order and with nothing else. So it contains the project clause
  and the lower-bound clause and ends with the order-by clause. The text around the
  project name has no character \<open><\<close>: the code writes no upper bound on the changed
  date, neither with \<open><=\<close> nor with \<open><\<close>, and the whole text has a \<open><\<close> exactly when
  the project name has one.
\<close>

theorem query_with_start_only:
  "build_query proj (Some start) None
     = ''SELECT [System.Id] FROM WorkItems WHERE [System.TeamProject]='' @ [CHR 0x27] @ proj
       @ [CHR 0x27] @ '' AND [System.ChangedDate] >= '' @ [CHR 0x27] @ isoformat start
       @ [CHR 0x27] @ '' ORDER BY [System.ChangedDate] ASC''
   \<and> sublist (''[System.TeamProject]='' @ [CHR 0x27] @ proj @ [CHR 0x27])
        (build_query proj (Some start) None)
   \<and> sublist (''[System.ChangedDate] >= '' @ [CHR 0x27] @ isoformat start @ [CHR 0x27])
        (build_query proj (Some start) None)
   \<and> suffix '' ORDER BY [System.ChangedDate] ASC'' (build_query proj (Some start) None)
   \<and> CHR ''<'' \<notin> set (''SELECT [System.Id] FROM WorkItems WHERE [System.TeamProject]=''
                         @ [CHR 0x27])
   \<and> CHR ''<'' \<notin> set ([CHR 0x27] @ '' AND [System.ChangedDate] >= '' @ [CHR 0x27]
                         @ isoformat start @ [CHR 0x27]
                         @ '' ORDER BY [System.ChangedDate] ASC'')
   \<and> (CHR ''<'' \<in> set (build_query proj (Some start) None)) = (CHR ''<'' \<in> set proj)"
proof -
  let ?q = "build_query proj (Some start) None"
  let ?P = "''[System.TeamProject]='' @ [CHR 0x27] @ proj @ [CHR 0x27]"
  let ?S = "''[System.ChangedDate] >= '' @ [CHR 0x27] @ isoformat start @ [CHR 0x27]"
  let ?O = "'' ORDER BY [System.ChangedDate] ASC''"
  have q: "?q = ''SELECT [System.Id] FROM WorkItems WHERE [System.TeamProject]='' @ [CHR 0x27]
       @ proj @ [CHR 0x27] @ '' AND [System.ChangedDate] >= '' @ [CHR 0x27] @ isoformat start
       @ [CHR 0x27] @ '' ORDER BY [System.ChangedDate] ASC''"
    by (simp add: build_query_def)
  have "?q = ''SELECT [System.Id] FROM WorkItems WHERE '' @ ?P @ ('' AND '' @ ?S @ ?O)"
    by (simp add: build_query_def)
  then have p: "sublist ?P ?q"
    unfolding sublist_def by blast
  have "?q = (''SELECT [System.Id] FROM WorkItems WHERE [System.TeamProject]='' @ [CHR 0x27]
              @ proj @ [CHR 0x27] @ '' AND '') @ ?S @ ?O"
    by (simp add: build_query_def)
  then have s: "sublist ?S ?q"
    unfolding sublist_def by blast
  have "?q = (''SELECT [System.Id] FROM WorkItems WHERE [System.TeamProject]='' @ [CHR 0x27]
              @ proj @ [CHR 0x27] @ '' AND '' @ ?S) @ ?O"
    by (simp add: build_query_def)
  then have o: "suffix ?O ?q"
    unfolding suffix_def by blast
  have a: "CHR ''<'' \<notin> set (''SELECT [System.Id] FROM WorkItems WHERE [System.TeamProject]=''
                         @ [CHR 0x27])"
    by simp
  have b: "CHR ''<'' \<notin> set ([CHR 0x27] @ '' AND [System.ChangedDate] >= '' @ [CHR 0x27]
                         @ isoformat start @ [CHR 0x27]
                         @ '' ORDER BY [System.ChangedDate] ASC'')"
    by (simp add: isoformat_no_lt)
  have c: "(CHR ''<'' \<in> set ?q) = (CHR ''<'' \<in> set proj)"
    by (simp add: build_query_def isoformat_no_lt)
  show ?thesis
    using q p s o a b c by blast
qed

theorem query_with_start_only_witness:
  "build_query ''Alpha'' (Some poll_start_dt) None
       = ''SELECT [System.Id] FROM WorkItems WHERE [System.TeamProject]='Alpha' AND [System.ChangedDate] >= '2023-11-14T22:13:20+00:00' ORDER BY [System.ChangedDate] ASC''
   \<and> CHR ''<'' \<notin> set (build_query ''Alpha'' (Some poll_start_dt) None)"
proof -
  have i: "isoformat poll_start_dt = ''2023-11-14T22:13:20+00:00''"
    by code_simp
  note t = query_with_start_only [of "''Alpha''" poll_start_dt]
  have q: "build_query ''Alpha'' (Some poll_start_dt) None
       = ''SELECT [System.Id] FROM WorkItems WHERE [System.TeamProject]='Alpha' AND [System.ChangedDate] >= '2023-11-14T22:13:20+00:00' ORDER BY [System.ChangedDate] ASC''"
    using conjunct1 [OF t] by (simp add: i)
  have "(CHR ''<'' \<in> set (build_query ''Alpha'' (Some poll_start_dt) None))
          = (CHR ''<'' \<in> set ''Alpha'')"
    using t by blast
  then have u: "CHR ''<'' \<notin> set (build_query ''Alpha'' (Some poll_start_dt) None)"
    by simp
  show ?thesis
    using q u by blast
qed

text \<open>
  Claim C7 as it is stated fails: the project name is copied into the text unescaped, so
  a project name can bring an upper bound with it. With the project name below and no
  end bound, the text contains the very clause that line 54 writes for the end bound
  1 January 2024, 00:00:00.
\<close>

theorem upper_bound_through_project_counterexample:
  "build_query ''Alpha' AND [System.ChangedDate] <= '2024-01-01T00:00:00''
       (Some poll_start_dt) None
     = ''SELECT [System.Id] FROM WorkItems WHERE [System.TeamProject]='Alpha' AND [System.ChangedDate] <= '2024-01-01T00:00:00' AND [System.ChangedDate] >= '2023-11-14T22:13:20+00:00' ORDER BY [System.ChangedDate] ASC''
   \<and> sublist
        (upper_bound_clause \<lparr>year = 2024, month = 1, day = 1, hour = 0, minute = 0, second = 0,
                             microsecond = 0, tzinfo = None\<rparr>)
        (build_query ''Alpha' AND [System.ChangedDate] <= '2024-01-01T00:00:00''
           (Some poll_start_dt) None)"
  by code_simp

text \<open>
  Helper facts: mapping items to documents makes no call; the retrieval loop only appends
  to the trace; an authenticated retrieval first sends its query.
\<close>

lemma item_to_document_trace: "trace (snd (item_to_document e item w)) = trace w"
  by (simp add: item_to_document_def updated_at_dt_def utcnow_def Let_def
        split: prod.splits pyval.splits option.splits)

lemma items_to_documents_trace: "trace (snd (items_to_documents e items w)) = trace w"
proof (induction items arbitrary: w)
  case Nil
  show ?case by simp
next
  case (Cons item items)
  obtain doc w1 where d: "item_to_document e item w = (doc, w1)"
    by (cases "item_to_document e item w")
  obtain docs w2 where ds: "items_to_documents e items w1 = (docs, w2)"
    by (cases "items_to_documents e items w1")
  have "trace w1 = trace w"
    using item_to_document_trace [of e item w] d by simp
  moreover have "trace w2 = trace w1"
    using Cons.IH [of w1] ds by simp
  ultimately show ?case
    by (simp add: d ds)
qed

lemma fetch_batches_trace:
  "prefix (trace w) (trace (snd (fetch_batches e cl proj bs ids starts w)))"
proof (induction starts arbitrary: w)
  case Nil
  show ?case by simp
next
  case (Cons i starts)
  let ?batch = "py_slice ids i (i + bs)"
  let ?w1 = "record_call (GetWorkItems ?batch proj ''Fields'') w"
  have w1: "prefix (trace w) (trace ?w1)"
    by (simp add: record_call_def)
  show ?case
  proof (cases "get_work_items cl ?batch proj ''Fields''")
    case (Inl x)
    then show ?thesis
      using w1 by (simp add: Let_def)
  next
    case (Inr items)
    obtain docs w2 where ds: "items_to_documents e items ?w1 = (docs, w2)"
      by (cases "items_to_documents e items ?w1")
    obtain rest err w3 where r: "fetch_batches e cl proj bs ids starts w2 = ((rest, err), w3)"
      by (cases "fetch_batches e cl proj bs ids starts w2") auto
    have "trace w2 = trace ?w1"
      using items_to_documents_trace [of e items ?w1] ds by simp
    moreover have "prefix (trace w2) (trace w3)"
      using Cons.IH [of w2] r by simp
    ultimately have "prefix (trace w) (trace w3)"
      using w1 by (metis prefix_order.trans)
    then show ?thesis
      by (simp add: Let_def Inr ds r)
  qed
qed

lemma fetch_work_items_trace:
  assumes "client self = Some cl"
  shows "prefix (trace w @ [QueryByWiql (Wiql (build_query (project self) start end_dt))])
           (trace (snd (fetch_work_items e self start end_dt w)))"
proof -
  let ?w1 = "record_call (QueryByWiql (Wiql (build_query (project self) start end_dt))) w"
  have t: "trace ?w1 = trace w @ [QueryByWiql (Wiql (build_query (project self) start end_dt))]"
    by (simp add: record_call_def)
  show ?thesis
    using assms fetch_batches_trace [of ?w1 e cl "project self" "batch_size self"]
    by (simp add: fetch_work_items_def Let_def t [symmetric] split: sum.splits)
qed

lemma isoformat_poll_start: "isoformat poll_start_dt = ''2023-11-14T22:13:20+00:00''"
  by code_simp

lemma isoformat_poll_end: "isoformat poll_end_dt = ''2023-11-14T23:13:20+00:00''"
  by code_simp

text \<open>
  Claim C6. The poll with the bounds \<open>1700000000\<close> and \<open>1700003600\<close> converts both to
  datetimes that carry the UTC offset (14 November 2023, 22:13:20 and 23:13:20) and runs
  the retrieval routine with them. The query text built from them has the lower bound
  with \<open>>=\<close> and the upper bound with \<open><=\<close> on the changed-date field, both in ISO
  format, and on an authenticated connector this text is the first thing sent.
\<close>

theorem poll_bounds_in_query:
  "fromtimestamp_utc 1700000000 = Inr poll_start_dt
   \<and> fromtimestamp_utc 1700003600 = Inr poll_end_dt
   \<and> tzinfo poll_start_dt = Some timezone_utc
   \<and> tzinfo poll_end_dt = Some timezone_utc
   \<and> poll_source e self 1700000000 1700003600 w
       = fetch_work_items e self (Some poll_start_dt) (Some poll_end_dt) w
   \<and> build_query (project self) (Some poll_start_dt) (Some poll_end_dt)
       = ''SELECT [System.Id] FROM WorkItems WHERE [System.TeamProject]='' @ [CHR 0x27]
         @ project self @ [CHR 0x27]
         @ '' AND [System.ChangedDate] >= '2023-11-14T22:13:20+00:00' AND [System.ChangedDate] <= '2023-11-14T23:13:20+00:00' ORDER BY [System.ChangedDate] ASC''
   \<and> (client self \<noteq> None \<longrightarrow>
        prefix (trace w @ [QueryByWiql (Wiql
                  (build_query (project self) (Some poll_start_dt) (Some poll_end_dt)))])
          (trace (snd (poll_source e self 1700000000 1700003600 w))))"
proof -
  have s: "fromtimestamp_utc 1700000000 = Inr poll_start_dt"
    by (simp add: fromtimestamp_1700000000 poll_start_dt_def)
  have t: "fromtimestamp_utc 1700003600 = Inr poll_end_dt"
    by (simp add: fromtimestamp_1700003600 poll_end_dt_def)
  have p: "poll_source e self 1700000000 1700003600 w
             = fetch_work_items e self (Some poll_start_dt) (Some poll_end_dt) w"
    by (simp add: poll_source_def s t)
  have q: "build_query (project self) (Some poll_start_dt) (Some poll_end_dt)
       = ''SELECT [System.Id] FROM WorkItems WHERE [System.TeamProject]='' @ [CHR 0x27]
         @ project self @ [CHR 0x27]
         @ '' AND [System.ChangedDate] >= '2023-11-14T22:13:20+00:00' AND [System.ChangedDate] <= '2023-11-14T23:13:20+00:00' ORDER BY [System.ChangedDate] ASC''"
    by (simp add: build_query_def isoformat_poll_start isoformat_poll_end)
  have r: "prefix (trace w @ [QueryByWiql (Wiql
                  (build_query (project self) (Some poll_start_dt) (Some poll_end_dt)))])
          (trace (snd (poll_source e self 1700000000 1700003600 w)))"
    if "client self \<noteq> None"
  proof -
    from that obtain cl where "client self = Some cl"
      by auto
    then show ?thesis
      unfolding p by (rule fetch_work_items_trace)
  qed
  have z: "tzinfo poll_start_dt = Some timezone_utc" "tzinfo poll_end_dt = Some timezone_utc"
    by (simp_all add: poll_start_dt_def poll_end_dt_def)
  show ?thesis
    using s t z p q r by blast
qed

theorem poll_bounds_in_query_witness:
  "client example_connector \<noteq> None
   \<and> prefix [QueryByWiql (Wiql ''SELECT [System.Id] FROM WorkItems WHERE [System.TeamProject]='Alpha' AND [System.ChangedDate] >= '2023-11-14T22:13:20+00:00' AND [System.ChangedDate] <= '2023-11-14T23:13:20+00:00' ORDER BY [System.ChangedDate] ASC'')]
       (trace (snd (poll_source example_env example_connector 1700000000 1700003600
                      example_world)))"
proof -
  note t = poll_bounds_in_query [of example_env example_connector example_world]
  have c: "client example_connector \<noteq> None"
    by (simp add: example_connector_def)
  have p: "project example_connector = ''Alpha''"
    by (simp add: example_connector_def init_def)
  have w: "trace example_world = []"
    by (simp add: example_world_def)
  have q: "build_query ''Alpha'' (Some poll_start_dt) (Some poll_end_dt)
       = ''SELECT [System.Id] FROM WorkItems WHERE [System.TeamProject]='Alpha' AND [System.ChangedDate] >= '2023-11-14T22:13:20+00:00' AND [System.ChangedDate] <= '2023-11-14T23:13:20+00:00' ORDER BY [System.ChangedDate] ASC''"
    using t by (simp add: p)
  have "prefix (trace example_world @ [QueryByWiql (Wiql
                  (build_query (project example_connector) (Some poll_start_dt)
                     (Some poll_end_dt)))])
          (trace (snd (poll_source example_env example_connector 1700000000 1700003600
                         example_world)))"
    using t c by blast
  then show ?thesis
    using c by (simp only: p w q append_Nil) simp
qed

end
